theory Spec2Isabelle
  imports Complex_Main
begin

section \<open>Tables, cells and exceptions\<close>

text \<open>
  The program is \<^verbatim>\<open>src/app/src/utils.py\<close>: a pandas pipeline that reads an export of
  robot cleaning tasks, filters and sorts its rows, normalises its columns and renames
  them. The embedding keeps the program's own names.

  A binary64 value is a rational, an infinity or NaN. A cell of a table holds a string,
  an integer, a float, a timestamp or NaT (the missing timestamp). The type \<open>'t\<close> of
  timestamps is any linear order: the program only compares timestamps.
\<close>

datatype float64 = Fin rat | PInf | NInf | NaN

datatype 't cell = CStr string | CInt int | CFloat float64 | CTime 't | CNaT

text \<open>
  An exception is its class and the text that \<^verbatim>\<open>str(e)\<close> gives. \<open>OtherError\<close> stands for
  the classes that only the libraries raise.
\<close>

datatype exc_kind = ValueError | KeyError | TypeError | RuntimeError | IndexError | OtherError

datatype exn = Exn exc_kind string

fun exn_kind :: "exn \<Rightarrow> exc_kind" where
  "exn_kind (Exn k m) = k"

fun exn_str :: "exn \<Rightarrow> string" where
  "exn_str (Exn k m) = m"

text \<open>
  A DataFrame is the list of its column labels, in order, and the list of its rows. A row
  maps a column label to a cell; it is read only at the labels listed in \<open>columns\<close>. The
  row index of pandas is not modelled: the program resets it and never reads it.
\<close>

type_synonym 't row = "string \<Rightarrow> 't cell"

record 't frame =
  columns :: "string list"
  rows :: "'t row list"

text \<open>The uploaded file: its name and its bytes, of a type \<open>'b\<close> left open.\<close>

record 'b upload =
  name :: string
  payload :: 'b

text \<open>
  The library functions the program calls (pandas, numpy, datetime) are parameters of the
  model, collected in one record, so that every theorem holds for whatever these functions
  compute:
  \<^item> \<open>read_csv\<close>, \<open>read_excel\<close>: \<^verbatim>\<open>pd.read_csv\<close>, \<^verbatim>\<open>pd.read_excel\<close> on the file;
  \<^item> \<open>strptime\<close>: \<^verbatim>\<open>datetime.strptime(s, "%Y-%m-%d %H:%M:%S")\<close>, \<open>None\<close> when it raises;
  \<^item> \<open>to_datetime\<close>: \<^verbatim>\<open>pd.to_datetime\<close> on a column, \<open>None\<close> in the result for NaT;
  \<^item> \<open>argsort_desc\<close>: the row order that \<^verbatim>\<open>sort_values(ascending=False)\<close> computes from
    the key column with the default sorting algorithm;
  \<^item> \<open>float_str\<close>, \<open>time_str\<close>: \<^verbatim>\<open>str\<close> of a float and of a timestamp;
  \<^item> \<open>float_of_str\<close>: \<^verbatim>\<open>float(s)\<close>, \<open>None\<close> when it raises;
  \<^item> \<open>to_numeric\<close>: \<^verbatim>\<open>pd.to_numeric\<close> on a string, \<open>None\<close> when it raises.
\<close>

record ('b, 't) pandas =
  read_csv :: "'b upload \<Rightarrow> exn + 't frame"
  read_excel :: "'b upload \<Rightarrow> exn + 't frame"
  strptime :: "string \<Rightarrow> 't option"
  to_datetime :: "'t cell list \<Rightarrow> exn + 't option list"
  argsort_desc :: "'t option list \<Rightarrow> nat list"
  float_str :: "float64 \<Rightarrow> string"
  time_str :: "'t \<Rightarrow> string"
  float_of_str :: "string \<Rightarrow> float64 option"
  to_numeric :: "string \<Rightarrow> 't cell option"

section \<open>Constants of the module\<close>

text \<open>
  The column labels of the export contain two characters outside ASCII, written here as
  their UTF-8 bytes: the square metre sign U+33A1 and the superscript two U+00B2.
\<close>

definition sqm :: string where
  "sqm = [CHR 0xE3, CHR 0x8E, CHR 0xA1]"

definition ft2 :: string where
  "ft2 = ''ft'' @ [CHR 0xC2, CHR 0xB2]"

definition cols_to_rename :: "(string \<times> string) list" where
  "cols_to_rename =
    [(''Id'', ''id''),
     (''Robot name'', ''robot_name''),
     (''S/N'', ''serial_number''),
     (''Map name'', ''map_name''),
     (''Cleaning plan'', ''task_name''),
     (''User'', ''user''),
     (''Task start time'', ''start_time''),
     (''End time'', ''end_time''),
     (''Task completion (%)'', ''task_completion''),
     (''Actual cleaning area('' @ sqm @ '')'', ''cleaning_area''),
     (''Actual cleaning area('' @ ft2 @ '')'', ''cleaning_area''),
     (''Total time (h)'', ''total_time''),
     (''Water usage (L)'', ''water_usage''),
     (''Water usage (gal)'', ''water_usage''),
     (''Brush (%)'', ''brush''),
     (''Filter (%)'', ''filter_element''),
     (''Squeegee(%)'', ''squeegee''),
     (''Planned crystallization area ('' @ sqm @ '')'', ''created_at''),
     (''Planned crystallization area ('' @ ft2 @ '')'', ''created_at''),
     (''Actual crystallization area ('' @ sqm @ '')'', ''updated_at''),
     (''Actual crystallization area ('' @ ft2 @ '')'', ''updated_at''),
     (''Cleaning plan area ('' @ sqm @ '')'', ''area_planned''),
     (''Cleaning plan area ('' @ ft2 @ '')'', ''area_planned''),
     (''Start battery level (%)'', ''start_battery_level''),
     (''End battery level (%)'', ''end_battery_level''),
     (''Receive task report time'', ''task_report_received''),
     (''Task type'', ''cleaning_mode''),
     (''Download link'', ''report_link''),
     (''Work efficiency ('' @ sqm @ ''/h)'', ''performance''),
     (''Work efficiency ('' @ ft2 @ ''/h)'', ''performance'')]"

section \<open>read_file\<close>

definition endswith :: "string \<Rightarrow> string \<Rightarrow> bool" where
  "endswith s suf \<longleftrightarrow> length suf \<le> length s \<and> drop (length s - length suf) s = suf"

text \<open>
  \<^verbatim>\<open>read_file\<close>: the whole body is inside \<^verbatim>\<open>try\<close>, so the \<^verbatim>\<open>ValueError\<close> raised for an
  unsupported extension is caught by \<^verbatim>\<open>except Exception\<close> like any failure of the
  readers, and raised again as a \<^verbatim>\<open>RuntimeError\<close>.
\<close>

definition read_file_try :: "('b, 't) pandas \<Rightarrow> 'b upload \<Rightarrow> exn + 't frame" where
  "read_file_try L f =
    (if endswith (name f) ''.csv'' then read_csv L f
     else if endswith (name f) ''.xls'' \<or> endswith (name f) ''.xlsx'' then read_excel L f
     else Inl (Exn ValueError (''Unsupported file type: '' @ name f)))"

definition read_file :: "('b, 't) pandas \<Rightarrow> 'b upload \<Rightarrow> exn + 't frame" where
  "read_file L f =
    (case read_file_try L f of
       Inl e \<Rightarrow> Inl (Exn RuntimeError (''An error occurred while reading the file: '' @ exn_str e))
     | Inr df \<Rightarrow> Inr df)"

section \<open>addPauseTimeNullCol and addTwoNullCols\<close>

text \<open>\<^verbatim>\<open>df[c] = v\<close> with a scalar: every row gets the value; a new label goes last.\<close>

definition set_column :: "string \<Rightarrow> 't cell \<Rightarrow> 't frame \<Rightarrow> 't frame" where
  "set_column c v df =
    \<lparr>columns = (if c \<in> set (columns df) then columns df else columns df @ [c]),
     rows = map (\<lambda>r. r(c := v)) (rows df)\<rparr>"

text \<open>\<^verbatim>\<open>cols.index(x)\<close> of a Python list, \<open>None\<close> for the \<^verbatim>\<open>ValueError\<close> of an absent element.\<close>

fun list_index :: "'a list \<Rightarrow> 'a \<Rightarrow> nat option" where
  "list_index [] x = None"
| "list_index (y # ys) x =
    (if y = x then Some 0 else map_option Suc (list_index ys x))"

text \<open>\<^verbatim>\<open>cols.insert(i, x)\<close> of a Python list: an index past the end appends.\<close>

definition list_insert :: "nat \<Rightarrow> 'a \<Rightarrow> 'a list \<Rightarrow> 'a list" where
  "list_insert i x xs = take i xs @ x # drop i xs"

definition addPauseTimeNullCol :: "'t frame \<Rightarrow> exn + 't frame" where
  "addPauseTimeNullCol df =
    (if ''total_time'' \<in> set (columns df) \<and> ''water_usage'' \<in> set (columns df) then
       (let df1 = set_column ''pause_time'' (CStr ''NULL'') df;
            cols = remove1 ''pause_time'' (columns df1)
        in case list_index cols ''total_time'' of
             None \<Rightarrow> Inl (Exn ValueError ''list.index(x): x not in list'')
           | Some i \<Rightarrow> Inr (df1\<lparr>columns := list_insert (i + 1) ''pause_time'' cols\<rparr>))
     else Inr df)"

definition addTwoNullCols :: "'t frame \<Rightarrow> 't frame" where
  "addTwoNullCols df = set_column ''vendor'' (CStr ''NULL'') (set_column ''job_id'' (CStr ''NULL'') df)"

section \<open>Binary64 arithmetic\<close>

text \<open>
  The floats of Python and numpy are IEEE 754 binary64 values. A finite one is modelled
  by the rational it denotes; an operation computes the exact rational result and rounds
  it to the nearest value with a 53-bit significand, ties to even (\<open>fl\<close>). The sign of
  zero is not modelled.
\<close>

definition rne :: "rat \<Rightarrow> int" where
  "rne x = (let f = \<lfloor>x\<rfloor>; d = x - of_int f
            in if d < 1 / 2 then f else if 1 / 2 < d then f + 1
               else if even f then f else f + 1)"

definition pow2 :: "int \<Rightarrow> rat" where
  "pow2 e = (if 0 \<le> e then 2 ^ nat e else 1 / 2 ^ nat (- e))"

text \<open>\<open>ilog2 x\<close> is the integer \<open>e\<close> with \<open>2^e \<le> x < 2^(e+1)\<close>, for a positive \<open>x\<close>.\<close>

function ilog2 :: "rat \<Rightarrow> int" where
  "ilog2 x = (if x \<le> 0 then 0
              else if 2 \<le> x then ilog2 (x / 2) + 1
              else if x < 1 then ilog2 (x * 2) - 1
              else 0)"
  by pat_completeness auto
termination
proof (relation "measure (\<lambda>x. if 1 \<le> x then nat \<lfloor>x\<rfloor> else nat \<lceil>1 / x\<rceil>)")
  show "wf (measure (\<lambda>x::rat. if 1 \<le> x then nat \<lfloor>x\<rfloor> else nat \<lceil>1 / x\<rceil>))"
    by simp
next
  fix x :: rat
  assume "\<not> x \<le> 0" and "2 \<le> x"
  then have "\<lfloor>x / 2\<rfloor> < \<lfloor>x\<rfloor>" and "1 \<le> x / 2" and "0 < \<lfloor>x\<rfloor>"
    by (simp_all add: floor_less_iff less_floor_iff) linarith+
  then show "(x / 2, x) \<in> measure (\<lambda>x. if 1 \<le> x then nat \<lfloor>x\<rfloor> else nat \<lceil>1 / x\<rceil>)"
    using \<open>2 \<le> x\<close> by simp
next
  fix x :: rat
  assume pos: "\<not> x \<le> 0" and "\<not> 2 \<le> x" and lt: "x < 1"
  show "(x * 2, x) \<in> measure (\<lambda>x. if 1 \<le> x then nat \<lfloor>x\<rfloor> else nat \<lceil>1 / x\<rceil>)"
  proof (cases "1 \<le> x * 2")
    case True
    then have "x * 2 < 2" using lt by simp
    then have "\<lfloor>x * 2\<rfloor> \<le> 1" by (simp add: floor_le_iff)
    moreover have "1 < 1 / x" using pos lt by (simp add: field_simps)
    then have "2 \<le> \<lceil>1 / x\<rceil>" by (simp add: le_ceiling_iff)
    ultimately have "nat \<lfloor>x * 2\<rfloor> < nat \<lceil>1 / x\<rceil>" by linarith
    moreover have "\<not> 1 \<le> x" using lt by simp
    ultimately show ?thesis using True by (simp only: in_measure if_True if_False)
  next
    case False
    then have h: "2 < 1 / x" using pos by (simp add: field_simps)
    have "1 / (x * 2) = (1 / x) / 2" by simp
    moreover have "\<lceil>(1 / x) / 2\<rceil> < \<lceil>1 / x\<rceil>"
    proof -
      have "(1 / x) / 2 \<le> of_int \<lceil>1 / x\<rceil> / 2" by (simp add: le_of_int_ceiling)
      moreover have "3 \<le> \<lceil>1 / x\<rceil>" using h by (simp add: le_ceiling_iff)
      ultimately have "(1 / x) / 2 \<le> of_int (\<lceil>1 / x\<rceil> - 1)"
        by (simp add: field_simps) linarith
      then show ?thesis by (simp add: ceiling_le_iff del: of_int_diff) linarith
    qed
    ultimately have "nat \<lceil>1 / (x * 2)\<rceil> < nat \<lceil>1 / x\<rceil>"
      using h pos by (simp add: less_ceiling_iff)
    moreover have "\<not> 1 \<le> x" using lt by simp
    ultimately show ?thesis using False by (simp only: in_measure if_True if_False)
  qed
qed

declare ilog2.simps [simp del]

definition fl :: "rat \<Rightarrow> float64" where
  "fl x = (if x = 0 then Fin 0
           else let e = max (ilog2 \<bar>x\<bar> - 52) (- 1074);
                    y = of_int (rne (x / pow2 e)) * pow2 e
                in if 1024 \<le> ilog2 \<bar>y\<bar> then (if 0 < x then PInf else NInf) else Fin y)"

definition float_of_int :: "int \<Rightarrow> float64" where
  "float_of_int i = fl (of_int i)"

fun fneg :: "float64 \<Rightarrow> float64" where
  "fneg (Fin a) = Fin (- a)"
| "fneg PInf = NInf"
| "fneg NInf = PInf"
| "fneg NaN = NaN"

fun fmul :: "float64 \<Rightarrow> float64 \<Rightarrow> float64" where
  "fmul (Fin a) (Fin b) = fl (a * b)"
| "fmul NaN y = NaN"
| "fmul x NaN = NaN"
| "fmul (Fin a) y = (if a = 0 then NaN else if 0 < a then y else fneg y)"
| "fmul x (Fin b) = (if b = 0 then NaN else if 0 < b then x else fneg x)"
| "fmul x y = (if x = y then PInf else NInf)"

fun fdiv_pos :: "float64 \<Rightarrow> rat \<Rightarrow> float64" where
  "fdiv_pos (Fin a) k = fl (a / k)"
| "fdiv_pos x k = x"

fun rint :: "float64 \<Rightarrow> float64" where
  "rint (Fin a) = Fin (of_int (rne a))"
| "rint x = x"

text \<open>
  \<^verbatim>\<open>round(d)\<close> of a float column is numpy's: multiply by \<open>10^d\<close>, round to the nearest
  integer (ties to even), divide by \<open>10^d\<close>.
\<close>

definition np_round :: "nat \<Rightarrow> float64 \<Rightarrow> float64" where
  "np_round d x = fdiv_pos (rint (fmul x (fl (10 ^ d)))) (10 ^ d)"

definition gallon :: float64 where
  "gallon = fl (3785411784 / 10 ^ 9)"

definition feet_squared :: float64 where
  "feet_squared = fl (9290304 / 10 ^ 8)"

section \<open>Steps of the pipeline\<close>

text \<open>Failing steps are chained as Python chains statements: the first exception ends the run.\<close>

definition bindE :: "exn + 'a \<Rightarrow> ('a \<Rightarrow> exn + 'b) \<Rightarrow> exn + 'b" where
  "bindE m k = (case m of Inl e \<Rightarrow> Inl e | Inr x \<Rightarrow> k x)"

fun mapE :: "('a \<Rightarrow> exn + 'b) \<Rightarrow> 'a list \<Rightarrow> exn + 'b list" where
  "mapE g [] = Inr []"
| "mapE g (x # xs) =
    (case g x of
       Inl e \<Rightarrow> Inl e
     | Inr y \<Rightarrow> (case mapE g xs of Inl e \<Rightarrow> Inl e | Inr ys \<Rightarrow> Inr (y # ys)))"

fun foldE :: "('a \<Rightarrow> 's \<Rightarrow> exn + 's) \<Rightarrow> 'a list \<Rightarrow> 's \<Rightarrow> exn + 's" where
  "foldE g [] s = Inr s"
| "foldE g (x # xs) s = (case g x s of Inl e \<Rightarrow> Inl e | Inr s' \<Rightarrow> foldE g xs s')"

text \<open>\<^verbatim>\<open>df[c]\<close> as a list of cells.\<close>

definition col :: "'t frame \<Rightarrow> string \<Rightarrow> 't cell list" where
  "col df c = map (\<lambda>r. r c) (rows df)"

text \<open>\<^verbatim>\<open>s.isin(values)\<close> on one cell: the values here are strings.\<close>

fun isin :: "'t cell \<Rightarrow> string list \<Rightarrow> bool" where
  "isin (CStr s) vs = (s \<in> set vs)"
| "isin c vs = False"

text \<open>
  \<^verbatim>\<open>if exclude_values: df = df[~df["S/N"].isin(exclude_values)]\<close>. \<^verbatim>\<open>None\<close> and the empty
  list are false in Python.
\<close>

definition exclude_rows :: "string list option \<Rightarrow> 't frame \<Rightarrow> exn + 't frame" where
  "exclude_rows exclude_values df =
    (case exclude_values of
       None \<Rightarrow> Inr df
     | Some vs \<Rightarrow>
         if vs = [] then Inr df
         else if ''S/N'' \<notin> set (columns df) then Inl (Exn KeyError ''S/N'')
         else Inr (df\<lparr>rows := filter (\<lambda>r. \<not> isin (r ''S/N'') vs) (rows df)\<rparr>))"

text \<open>\<^verbatim>\<open>df.drop(columns=cs, inplace=True)\<close>: an absent label raises \<^verbatim>\<open>KeyError\<close>.\<close>

definition drop_cols :: "string list \<Rightarrow> 't frame \<Rightarrow> exn + 't frame" where
  "drop_cols cs df =
    (if set cs \<subseteq> set (columns df)
     then Inr (df\<lparr>columns := filter (\<lambda>c. c \<notin> set cs) (columns df)\<rparr>)
     else Inl (Exn KeyError ''not found in axis''))"

text \<open>\<^verbatim>\<open>df.insert(0, c, v)\<close>: a label already there raises \<^verbatim>\<open>ValueError\<close>.\<close>

definition insert_first :: "string \<Rightarrow> 't cell \<Rightarrow> 't frame \<Rightarrow> exn + 't frame" where
  "insert_first c v df =
    (if c \<in> set (columns df)
     then Inl (Exn ValueError (''cannot insert '' @ c @ '', already exists''))
     else Inr \<lparr>columns = c # columns df, rows = map (\<lambda>r. r(c := v)) (rows df)\<rparr>)"

fun time_cell :: "'t option \<Rightarrow> 't cell" where
  "time_cell None = CNaT"
| "time_cell (Some t) = CTime t"

fun time_of :: "'t cell \<Rightarrow> 't option" where
  "time_of (CTime t) = Some t"
| "time_of c = None"

text \<open>
  \<^verbatim>\<open>df[c] = pd.to_datetime(df[c])\<close>. The assignment raises \<^verbatim>\<open>ValueError\<close> when the
  lengths differ.
\<close>

definition parse_times :: "('b, 't) pandas \<Rightarrow> string \<Rightarrow> 't frame \<Rightarrow> exn + 't frame" where
  "parse_times L c df =
    (if c \<notin> set (columns df) then Inl (Exn KeyError c)
     else case to_datetime L (col df c) of
       Inl e \<Rightarrow> Inl e
     | Inr ts \<Rightarrow>
         if length ts \<noteq> length (rows df)
         then Inl (Exn ValueError ''Length of values does not match length of index'')
         else Inr (df\<lparr>rows := map2 (\<lambda>r t. r(c := time_cell t)) (rows df) ts\<rparr>))"

text \<open>\<^verbatim>\<open>df[c] > selected_datetime\<close> on one cell: NaT compares false.\<close>

fun later_than :: "'t::linorder \<Rightarrow> 't cell \<Rightarrow> bool" where
  "later_than t0 (CTime t) = (t0 < t)"
| "later_than t0 c = False"

text \<open>
  \<^verbatim>\<open>df.sort_values(by=c, ascending=False)\<close> followed by \<^verbatim>\<open>reset_index(drop=True)\<close>: the
  rows are taken in the order the library computes from the key column.
\<close>

definition sort_values :: "('b, 't) pandas \<Rightarrow> string \<Rightarrow> 't frame \<Rightarrow> exn + 't frame" where
  "sort_values L c df =
    (if c \<notin> set (columns df) then Inl (Exn KeyError c)
     else let p = argsort_desc L (map time_of (col df c))
          in if \<forall>i \<in> set p. i < length (rows df)
             then Inr (df\<lparr>rows := map (\<lambda>i. rows df ! i) p\<rparr>)
             else Inl (Exn IndexError ''indices are out-of-bounds''))"

text \<open>
  Lines 102 to 130 of \<^verbatim>\<open>process_data\<close>, and the same lines 231 to 259 of
  \<^verbatim>\<open>process_ca_data\<close>, which differ in the list of dropped columns only: read, exclude,
  drop, insert \<^verbatim>\<open>Id\<close>, parse the cutoff and the report times, keep the later rows,
  exclude again, sort.
\<close>

definition filter_sort ::
  "('b, 't::linorder) pandas \<Rightarrow> string list \<Rightarrow> 'b upload \<Rightarrow> string \<Rightarrow> string list option
    \<Rightarrow> exn + 't frame" where
  "filter_sort L drop_columns f selected_datetime_str exclude_values =
    bindE (read_file L f) (\<lambda>df.
    bindE (exclude_rows exclude_values df) (\<lambda>df.
    bindE (drop_cols drop_columns df) (\<lambda>df.
    bindE (insert_first ''Id'' (CFloat NaN) df) (\<lambda>df.
    case strptime L selected_datetime_str of
      None \<Rightarrow> Inl (Exn ValueError ''time data does not match format'')
    | Some selected_datetime \<Rightarrow>
        bindE (parse_times L ''Receive task report time'' df) (\<lambda>df.
        bindE (exclude_rows exclude_values
                 (df\<lparr>rows := filter (\<lambda>r. later_than selected_datetime
                                            (r ''Receive task report time'')) (rows df)\<rparr>))
          (\<lambda>df_filtered. sort_values L ''Receive task report time'' df_filtered))))))"

text \<open>\<^verbatim>\<open>for col in column_order: if col not in df.columns: df[col] = "NULL"\<close>.\<close>

definition ensure_columns :: "string list \<Rightarrow> 't frame \<Rightarrow> 't frame" where
  "ensure_columns cs df =
    fold (\<lambda>c d. if c \<in> set (columns d) then d else set_column c (CStr ''NULL'') d) cs df"

text \<open>\<^verbatim>\<open>df[cs]\<close> with a list of labels: an absent label raises \<^verbatim>\<open>KeyError\<close>.\<close>

definition select_columns :: "string list \<Rightarrow> 't frame \<Rightarrow> exn + 't frame" where
  "select_columns cs df =
    (if set cs \<subseteq> set (columns df) then Inr (df\<lparr>columns := cs\<rparr>)
     else Inl (Exn KeyError ''not in index''))"

text \<open>\<^verbatim>\<open>df.loc[:, cs] = v\<close> for labels that are present.\<close>

definition update_columns :: "string list \<Rightarrow> 't cell \<Rightarrow> 't frame \<Rightarrow> 't frame" where
  "update_columns cs v df = fold (\<lambda>c d. set_column c v d) cs df"

text \<open>\<^verbatim>\<open>df.replace("-", 0)\<close> and \<^verbatim>\<open>df.fillna("NULL")\<close>, on every cell of the table.\<close>

definition map_cells :: "('t cell \<Rightarrow> 't cell) \<Rightarrow> 't frame \<Rightarrow> 't frame" where
  "map_cells g df = df\<lparr>rows := map (\<lambda>r c. g (r c)) (rows df)\<rparr>"

definition replace_dash :: "'t cell \<Rightarrow> 't cell" where
  "replace_dash c = (if c = CStr ''-'' then CInt 0 else c)"

fun isna :: "'t cell \<Rightarrow> bool" where
  "isna (CFloat NaN) = True"
| "isna CNaT = True"
| "isna c = False"

definition fillna :: "'t cell \<Rightarrow> 't cell" where
  "fillna c = (if isna c then CStr ''NULL'' else c)"

text \<open>
  Lines 167 to 178 (and 290 to 301): overwrite the two crystallization columns with the
  adjusted datetime, replace the dashes, fill the missing cells.
\<close>

definition normalize :: "string list \<Rightarrow> 't \<Rightarrow> 't frame \<Rightarrow> 't frame" where
  "normalize columns_to_update adjusted_datetime df_reorder =
    map_cells fillna (map_cells replace_dash
      (update_columns columns_to_update (CTime adjusted_datetime) df_reorder))"

section \<open>Numeric cleanup\<close>

text \<open>
  The dtype of a column is the one pandas infers from its values: \<^verbatim>\<open>int64\<close> when all
  are integers, \<^verbatim>\<open>float64\<close> when all are numbers, \<^verbatim>\<open>datetime64\<close> when all are
  timestamps, \<^verbatim>\<open>object\<close> otherwise.
\<close>

datatype dtype = Object | Int64 | Float64 | Datetime64

fun is_int :: "'t cell \<Rightarrow> bool" where
  "is_int (CInt i) = True"
| "is_int c = False"

fun is_num :: "'t cell \<Rightarrow> bool" where
  "is_num (CInt i) = True"
| "is_num (CFloat x) = True"
| "is_num c = False"

fun is_time :: "'t cell \<Rightarrow> bool" where
  "is_time (CTime t) = True"
| "is_time CNaT = True"
| "is_time c = False"

definition dtype_of :: "'t cell list \<Rightarrow> dtype" where
  "dtype_of cs =
    (if cs = [] then Object
     else if list_all is_int cs then Int64
     else if list_all is_num cs then Float64
     else if list_all is_time cs then Datetime64
     else Object)"

fun digits :: "nat \<Rightarrow> string" where
  "digits n = (if n < 10 then [''0123456789'' ! n]
               else digits (n div 10) @ [''0123456789'' ! (n mod 10)])"

declare digits.simps [simp del]

definition str_int :: "int \<Rightarrow> string" where
  "str_int i = (if i < 0 then ''-'' @ digits (nat (- i)) else digits (nat i))"

text \<open>\<^verbatim>\<open>astype(str)\<close> on one cell.\<close>

fun astype_str :: "('b, 't) pandas \<Rightarrow> 't cell \<Rightarrow> string" where
  "astype_str L (CStr s) = s"
| "astype_str L (CInt i) = str_int i"
| "astype_str L (CFloat x) = float_str L x"
| "astype_str L (CTime t) = time_str L t"
| "astype_str L CNaT = ''NaT''"

definition strip_commas :: "string \<Rightarrow> string" where
  "strip_commas s = filter (\<lambda>ch. ch \<noteq> CHR '','') s"

text \<open>\<^verbatim>\<open>replace(a, b)\<close> of a Series or DataFrame replaces the cells equal to \<open>a\<close>.\<close>

definition replace_str :: "string \<Rightarrow> string \<Rightarrow> string \<Rightarrow> string" where
  "replace_str a b s = (if s = a then b else s)"

definition replace_cell :: "string \<Rightarrow> string \<Rightarrow> 't cell \<Rightarrow> 't cell" where
  "replace_cell a b c = (if c = CStr a then CStr b else c)"

text \<open>\<^verbatim>\<open>astype(float)\<close> on one cell.\<close>

fun astype_float :: "('b, 't) pandas \<Rightarrow> 't cell \<Rightarrow> exn + 't cell" where
  "astype_float L (CStr s) =
    (case float_of_str L s of
       None \<Rightarrow> Inl (Exn ValueError (''could not convert string to float: '' @ s))
     | Some x \<Rightarrow> Inr (CFloat x))"
| "astype_float L (CInt i) = Inr (CFloat (float_of_int i))"
| "astype_float L (CFloat x) = Inr (CFloat x)"
| "astype_float L c = Inl (Exn TypeError ''float() argument must be a string or a real number'')"

text \<open>A cell-wise operation on one column, raising the first exception.\<close>

definition apply_column ::
  "('t cell \<Rightarrow> exn + 't cell) \<Rightarrow> string \<Rightarrow> 't frame \<Rightarrow> exn + 't frame" where
  "apply_column g c df =
    (if c \<notin> set (columns df) then Inl (Exn KeyError c)
     else case mapE (\<lambda>r. case g (r c) of Inl e \<Rightarrow> Inl e | Inr v \<Rightarrow> Inr (r(c := v))) (rows df) of
       Inl e \<Rightarrow> Inl e
     | Inr rs \<Rightarrow> Inr (df\<lparr>rows := rs\<rparr>))"

text \<open>
  The body of the loop of \<^verbatim>\<open>process_data\<close> (lines 191 to 200) on one cell and on one
  column.
\<close>

definition clean_cell :: "('b, 't) pandas \<Rightarrow> 't cell \<Rightarrow> exn + 't cell" where
  "clean_cell L c =
    astype_float L
      (CStr (replace_str ''100.00'' ''100'' (replace_str ''0.00'' ''0''
        (strip_commas (astype_str L c)))))"

definition clean_column :: "('b, 't) pandas \<Rightarrow> string \<Rightarrow> 't frame \<Rightarrow> exn + 't frame" where
  "clean_column L c df =
    (if c \<notin> set (columns df) then Inl (Exn KeyError c)
     else if dtype_of (col df c) \<in> {Object, Float64} then apply_column (clean_cell L) c df
     else Inr df)"

section \<open>process_data\<close>

definition drop_columns :: "string list" where
  "drop_columns =
    [''Total time'', ''Task status'', ''Plan running time (s)'',
     ''Uncleaned area ('' @ sqm @ '')'', ''Task start mode'', ''Remarks'']"

definition column_order :: "string list" where
  "column_order =
    [''Id'', ''Robot name'', ''S/N'', ''Map name'', ''Cleaning plan'', ''User'',
     ''Task start time'', ''End time'', ''Task completion (%)'',
     ''Actual cleaning area('' @ sqm @ '')'', ''Total time (h)'', ''Water usage (L)'',
     ''Brush (%)'', ''Filter (%)'', ''Squeegee(%)'',
     ''Planned crystallization area ('' @ sqm @ '')'',
     ''Actual crystallization area ('' @ sqm @ '')'',
     ''Cleaning plan area ('' @ sqm @ '')'', ''Start battery level (%)'',
     ''End battery level (%)'', ''Receive task report time'', ''Task type'',
     ''Download link'', ''Work efficiency ('' @ sqm @ ''/h)'']"

definition columns_to_update :: "string list" where
  "columns_to_update =
    [''Planned crystallization area ('' @ sqm @ '')'',
     ''Actual crystallization area ('' @ sqm @ '')'']"

definition columns_with_comma_or_pct :: "string list" where
  "columns_with_comma_or_pct =
    [''Work efficiency ('' @ sqm @ ''/h)'', ''Actual cleaning area('' @ sqm @ '')'',
     ''Cleaning plan area ('' @ sqm @ '')'', ''Brush (%)'', ''Filter (%)'', ''Squeegee(%)'']"

definition process_data ::
  "('b, 't::linorder) pandas \<Rightarrow> 'b upload \<Rightarrow> string \<Rightarrow> 't \<Rightarrow> string list option
    \<Rightarrow> exn + 't frame" where
  "process_data L f selected_datetime_str adjusted_datetime exclude_values =
    bindE (filter_sort L drop_columns f selected_datetime_str exclude_values) (\<lambda>df_filtered.
    bindE (select_columns column_order (ensure_columns column_order df_filtered)) (\<lambda>df_reorder.
    foldE (clean_column L) columns_with_comma_or_pct
      (normalize columns_to_update adjusted_datetime df_reorder)))"

section \<open>process_ca_data\<close>

definition drop_columns_ca :: "string list" where
  "drop_columns_ca =
    [''Total time'', ''Task status'', ''Plan running time (s)'',
     ''Uncleaned area ('' @ ft2 @ '')'', ''Task start mode'', ''Remarks'']"

definition column_order_ca :: "string list" where
  "column_order_ca =
    [''Id'', ''Robot name'', ''S/N'', ''Map name'', ''Cleaning plan'', ''User'',
     ''Task start time'', ''End time'', ''Task completion (%)'',
     ''Actual cleaning area('' @ ft2 @ '')'', ''Total time (h)'', ''Water usage (gal)'',
     ''Brush (%)'', ''Filter (%)'', ''Squeegee(%)'',
     ''Planned crystallization area ('' @ ft2 @ '')'',
     ''Actual crystallization area ('' @ ft2 @ '')'',
     ''Cleaning plan area ('' @ ft2 @ '')'', ''Start battery level (%)'',
     ''End battery level (%)'', ''Receive task report time'', ''Task type'',
     ''Download link'', ''Work efficiency ('' @ ft2 @ ''/h)'']"

definition columns_to_update_ca :: "string list" where
  "columns_to_update_ca =
    [''Planned crystallization area ('' @ ft2 @ '')'',
     ''Actual crystallization area ('' @ ft2 @ '')'']"

definition columns_with_comma :: "string list" where
  "columns_with_comma =
    [''Work efficiency ('' @ ft2 @ ''/h)'', ''Actual cleaning area('' @ ft2 @ '')'',
     ''Cleaning plan area ('' @ ft2 @ '')'']"

definition columns_with_pct :: "string list" where
  "columns_with_pct = [''Brush (%)'', ''Filter (%)'', ''Squeegee(%)'']"

text \<open>\<^verbatim>\<open>cell * k\<close> with a float \<open>k\<close>: a number is multiplied, anything else raises.\<close>

fun times_const :: "float64 \<Rightarrow> 't cell \<Rightarrow> exn + 't cell" where
  "times_const k (CInt i) = Inr (CFloat (fmul (float_of_int i) k))"
| "times_const k (CFloat x) = Inr (CFloat (fmul x k))"
| "times_const k c = Inl (Exn TypeError ''unsupported operand type(s) for *'')"

text \<open>\<^verbatim>\<open>pd.to_numeric\<close> on one cell: a string is parsed, a number is kept.\<close>

fun to_numeric_cell :: "('b, 't) pandas \<Rightarrow> 't cell \<Rightarrow> exn + 't cell" where
  "to_numeric_cell L (CStr s) =
    (case to_numeric L s of
       None \<Rightarrow> Inl (Exn ValueError (''Unable to parse string '' @ s))
     | Some v \<Rightarrow> Inr v)"
| "to_numeric_cell L c = Inr c"

text \<open>\<^verbatim>\<open>round(d)\<close> on one cell: only floats change.\<close>

fun round_cell :: "nat \<Rightarrow> 't cell \<Rightarrow> 't cell" where
  "round_cell d (CFloat x) = CFloat (np_round d x)"
| "round_cell d c = c"

text \<open>The cell operations of lines 309 to 318, in the order of the program.\<close>

definition comma_cell :: "('b, 't) pandas \<Rightarrow> 't cell \<Rightarrow> exn + 't cell" where
  "comma_cell L c = Inr (CStr (strip_commas (astype_str L c)))"

definition gallon_cell :: "('b, 't) pandas \<Rightarrow> 't cell \<Rightarrow> exn + 't cell" where
  "gallon_cell L c =
    bindE (times_const gallon c) (\<lambda>v.
    bindE (to_numeric_cell L v) (\<lambda>w. Inr (round_cell 4 w)))"

definition str_cell :: "('b, 't) pandas \<Rightarrow> 't cell \<Rightarrow> exn + 't cell" where
  "str_cell L c = Inr (CStr (replace_str '','' [] (astype_str L c)))"

definition round3_cell :: "('b, 't) pandas \<Rightarrow> 't cell \<Rightarrow> exn + 't cell" where
  "round3_cell L c = bindE (to_numeric_cell L c) (\<lambda>v. Inr (round_cell 3 v))"

definition pct_cell :: "('b, 't) pandas \<Rightarrow> 't cell \<Rightarrow> exn + 't cell" where
  "pct_cell L c = astype_float L (replace_cell ''100.00'' ''100'' (replace_cell ''0.0'' ''0'' c))"

definition convert_ca :: "('b, 't) pandas \<Rightarrow> 't frame \<Rightarrow> exn + 't frame" where
  "convert_ca L df_replaced =
    bindE (foldE (apply_column (comma_cell L)) columns_with_comma df_replaced) (\<lambda>d1.
    bindE (apply_column (gallon_cell L) ''Water usage (gal)'' d1) (\<lambda>d2.
    bindE (foldE (apply_column (to_numeric_cell L)) columns_with_comma d2) (\<lambda>d3.
    bindE (foldE (apply_column (times_const feet_squared)) columns_with_comma d3) (\<lambda>d4.
    bindE (foldE (apply_column (str_cell L)) columns_with_comma d4) (\<lambda>d5.
    bindE (foldE (apply_column (round3_cell L)) columns_with_comma d5) (\<lambda>d6.
    foldE (apply_column (pct_cell L)) columns_with_pct d6))))))"

definition process_ca_data ::
  "('b, 't::linorder) pandas \<Rightarrow> 'b upload \<Rightarrow> string \<Rightarrow> 't \<Rightarrow> string list option
    \<Rightarrow> exn + 't frame" where
  "process_ca_data L f selected_datetime_str adjusted_datetime exclude_values =
    bindE (filter_sort L drop_columns_ca f selected_datetime_str exclude_values) (\<lambda>df_filtered.
    bindE (select_columns column_order_ca df_filtered) (\<lambda>df_reorder.
    convert_ca L (normalize columns_to_update_ca adjusted_datetime df_reorder)))"

section \<open>process_uploaded_file\<close>

text \<open>\<^verbatim>\<open>df.rename(columns=m)\<close>: a label in the dictionary is replaced, the others stay.\<close>

definition rename_label :: "(string \<times> string) list \<Rightarrow> string \<Rightarrow> string" where
  "rename_label m c = (case map_of m c of None \<Rightarrow> c | Some c' \<Rightarrow> c')"

definition rename_row :: "(string \<times> string) list \<Rightarrow> string list \<Rightarrow> 't row \<Rightarrow> 't row" where
  "rename_row m cs r = fold (\<lambda>c acc. acc(rename_label m c := r c)) cs r"

definition rename :: "(string \<times> string) list \<Rightarrow> 't frame \<Rightarrow> 't frame" where
  "rename m df =
    \<lparr>columns = map (rename_label m) (columns df),
     rows = map (rename_row m (columns df)) (rows df)\<rparr>"

definition process_uploaded_file ::
  "('b, 't::linorder) pandas \<Rightarrow> 'b upload \<Rightarrow> string \<Rightarrow> 't \<Rightarrow> string \<Rightarrow> string list option
    \<Rightarrow> exn + 't frame" where
  "process_uploaded_file L uploaded_file selected_datetime adjusted_datetime selected_server
      exclude_values =
    bindE ((if selected_server = ''GS CA'' then process_ca_data else process_data)
             L uploaded_file selected_datetime adjusted_datetime exclude_values) (\<lambda>df_processed.
    bindE (if selected_server \<in> {''GS SGV2'', ''GS AUS''}
           then addPauseTimeNullCol (rename cols_to_rename df_processed)
           else Inr (rename cols_to_rename df_processed)) (\<lambda>df1.
    Inr (if selected_server \<noteq> ''GS SGV1'' then addTwoNullCols df1 else df1)))"

(*DEFS-END*)
section \<open>Evaluating binary64 operations\<close>

text \<open>The floor of a quotient of numerals, for the evaluation of \<open>rne\<close> and \<open>ilog2\<close>.\<close>

lemma floor_rat_numeral [simp]:
  "\<lfloor>numeral a / numeral b :: rat\<rfloor> = numeral a div numeral b"
  using floor_divide_of_int_eq [of "numeral a" "numeral b", where ?'a = rat] by simp

lemma floor_rat_neg_numeral [simp]:
  "\<lfloor>- (numeral a / numeral b) :: rat\<rfloor> = - numeral a div numeral b"
  using floor_divide_of_int_eq [of "- numeral a" "numeral b", where ?'a = rat] by simp

lemmas fl_eval = fl_def ilog2.simps rne_def pow2_def Let_def float_of_int_def np_round_def

text \<open>The two constants are the binary64 values nearest to the decimals of the source.\<close>

lemma gallon_val: "gallon = Fin (4261994774966571 / 1125899906842624)"
  by (simp add: gallon_def fl_eval)

lemma feet_squared_val: "feet_squared = Fin (6694369541209381 / 72057594037927936)"
  by (simp add: feet_squared_def fl_eval)

lemma ten_gallons: "np_round 4 (fmul (float_of_int 10) gallon) = fl (378541 / 10000)"
  by (simp add: gallon_val fl_eval)

lemma hundred_feet: "np_round 3 (fmul (float_of_int 100) feet_squared) = fl (929 / 100)"
  by (simp add: feet_squared_val fl_eval)

section \<open>Properties of the steps\<close>

lemma bindE_Inr: "bindE m k = Inr y \<longleftrightarrow> (\<exists>x. m = Inr x \<and> k x = Inr y)"
  by (cases m) (simp_all add: bindE_def)

lemma mapE_rows:
  "mapE (\<lambda>r. case g (r c) of Inl e \<Rightarrow> Inl e | Inr v \<Rightarrow> Inr (r(c := v))) rs = Inr rs'
    \<Longrightarrow> (k \<noteq> c \<longrightarrow> map (\<lambda>r. r k) rs' = map (\<lambda>r. r k) rs)
      \<and> list_all2 (\<lambda>x y. g x = Inr y) (map (\<lambda>r. r c) rs) (map (\<lambda>r. r c) rs')"
proof (induction rs arbitrary: rs')
  case Nil
  then show ?case by simp
next
  case (Cons r rs)
  then show ?case by (auto split: sum.splits)
qed

lemma apply_column_columns: "apply_column g c df = Inr df' \<Longrightarrow> columns df' = columns df"
  by (auto simp add: apply_column_def split: if_splits sum.splits)

lemma apply_column_other:
  "apply_column g c df = Inr df' \<Longrightarrow> k \<noteq> c \<Longrightarrow> col df' k = col df k"
  using mapE_rows [where g = g and c = c and rs = "rows df" and k = k]
  by (auto simp add: apply_column_def col_def split: if_splits sum.splits)

lemma apply_column_same:
  "apply_column g c df = Inr df' \<Longrightarrow> list_all2 (\<lambda>x y. g x = Inr y) (col df c) (col df' c)"
  using mapE_rows [where g = g and c = c and rs = "rows df" and k = c]
  by (auto simp add: apply_column_def col_def split: if_splits sum.splits)

lemma foldE_apply_column:
  "foldE (apply_column g) cs df = Inr df'
    \<Longrightarrow> columns df' = columns df \<and> (k \<notin> set cs \<longrightarrow> col df' k = col df k)"
proof (induction cs arbitrary: df)
  case Nil
  then show ?case by simp
next
  case (Cons c cs)
  then show ?case
    by (auto split: sum.splits dest: apply_column_columns apply_column_other)
qed

lemma clean_column_columns: "clean_column L c df = Inr df' \<Longrightarrow> columns df' = columns df"
  by (auto simp add: clean_column_def split: if_splits dest: apply_column_columns)

lemma clean_column_other:
  "clean_column L c df = Inr df' \<Longrightarrow> k \<noteq> c \<Longrightarrow> col df' k = col df k"
  by (auto simp add: clean_column_def split: if_splits dest: apply_column_other)

lemma foldE_clean_column:
  "foldE (clean_column L) cs df = Inr df'
    \<Longrightarrow> columns df' = columns df \<and> (k \<notin> set cs \<longrightarrow> col df' k = col df k)"
proof (induction cs arbitrary: df)
  case Nil
  then show ?case by simp
next
  case (Cons c cs)
  then show ?case
    by (auto split: sum.splits dest: clean_column_columns clean_column_other)
qed

(*LEMMAS-END*)
section \<open>The file reader\<close>

text \<open>
  C7. The claim: an unsupported extension fails with an error of its own kind, a failure
  of the parser with another, and the caller can tell them apart. The program raises
  \<^verbatim>\<open>ValueError\<close> for the extension inside the \<^verbatim>\<open>try\<close> block, so it is caught and
  raised again as \<^verbatim>\<open>RuntimeError\<close>: for the file name \<^verbatim>\<open>report.txt\<close> the caller gets a
  \<^verbatim>\<open>RuntimeError\<close>, the class it also gets when the reader of a \<^verbatim>\<open>.csv\<close> file fails.
\<close>

theorem read_file_unsupported_is_RuntimeError:
  "read_file L \<lparr>name = ''report.txt'', payload = b\<rparr> =
     Inl (Exn RuntimeError
       ''An error occurred while reading the file: Unsupported file type: report.txt'')
   \<and> read_file (L\<lparr>read_csv := \<lambda>u. Inl (Exn OtherError ''bad bytes'')\<rparr>)
        \<lparr>name = ''report.csv'', payload = b\<rparr> =
     Inl (Exn RuntimeError ''An error occurred while reading the file: bad bytes'')"
  by (simp add: read_file_def read_file_try_def endswith_def)

section \<open>The pause_time column\<close>

text \<open>
  C10. When \<^verbatim>\<open>total_time\<close> or \<^verbatim>\<open>water_usage\<close> is not a column of the table,
  \<^verbatim>\<open>addPauseTimeNullCol\<close> returns the table as it is: no column is inserted and no
  exception is raised.
\<close>

theorem addPauseTimeNullCol_absent_unchanged:
  "''total_time'' \<notin> set (columns df) \<or> ''water_usage'' \<notin> set (columns df)
    \<Longrightarrow> addPauseTimeNullCol df = Inr df"
  by (auto simp add: addPauseTimeNullCol_def)

theorem addPauseTimeNullCol_absent_unchanged_witness:
  "addPauseTimeNullCol \<lparr>columns = [''id'', ''total_time''], rows = [\<lambda>c. CInt 1 :: nat cell]\<rparr>
     = Inr \<lparr>columns = [''id'', ''total_time''], rows = [\<lambda>c. CInt 1]\<rparr>"
  using addPauseTimeNullCol_absent_unchanged
    [of "\<lparr>columns = [''id'', ''total_time''], rows = [\<lambda>c. CInt 1 :: nat cell]\<rparr>"]
  by simp

end
